theory Spec2Isabelle
  imports Complex_Main "HOL-Library.Word"
begin

section \<open>Data model of UniformGridRandomFieldGenerator\<close>

text \<open>
  The class template \<open>UniformGridRandomFieldGenerator<SPACE_DIM>\<close> is instantiated for
  \<open>SPACE_DIM\<close> 1, 2 and 3. The template parameter is an explicit argument \<open>SPACE_DIM\<close> of
  every function below, and a \<open>std::array<T, SPACE_DIM>\<close> or \<open>c_vector<double, SPACE_DIM>\<close>
  is a list that holds \<open>SPACE_DIM\<close> elements.

  A \<open>double\<close> is modelled by the real number it denotes, and arithmetic on doubles by exact
  real arithmetic: rounding, NaN, the infinities and the sign of zero are outside the model.
  An \<open>unsigned\<close> is a 32-bit word, so that products wrap as they do in the code.
\<close>

type_synonym double = real
type_synonym unsigned = "32 word"

text \<open>
  The eigenvector matrix: \<open>rows()\<close>, \<open>cols()\<close> and the contiguous storage behind \<open>data()\<close>,
  which holds \<open>size() = rows() * cols()\<close> doubles.
\<close>

record matrix =
  mrows :: nat
  mcols :: nat
  mdata :: "double list"

definition msize :: "matrix \<Rightarrow> nat" where
  "msize m = mrows m * mcols m"

definition empty_matrix :: matrix where
  "empty_matrix = \<lparr>mrows = 0, mcols = 0, mdata = []\<rparr>"

text \<open>The data members of the class, under the names the source gives them.\<close>

record generator =
  mLowerCorner :: "double list"
  mUpperCorner :: "double list"
  mNumGridPts :: "unsigned list"
  mPeriodicity :: "bool list"
  mNumEigenvals :: unsigned
  mLengthScale :: double
  mEigenvals :: "double list"
  mEigenvecs :: matrix

section \<open>GetSquaredDistAtoB\<close>

text \<open>The body of the loop over dimensions: the value of \<open>delta_this_dim\<close> after the
  periodicity test. The loop variable \<open>dim\<close> of the source is \<open>d\<close> here.\<close>

definition delta_this_dim :: "generator \<Rightarrow> double list \<Rightarrow> double list \<Rightarrow> nat \<Rightarrow> double" where
  "delta_this_dim g rLocation1 rLocation2 d =
     (let delta = \<bar>rLocation2 ! d - rLocation1 ! d\<bar> in
      if mPeriodicity g ! d
      then (let domain_width_this_dim = mUpperCorner g ! d - mLowerCorner g ! d
            in min delta (domain_width_this_dim - delta))
      else delta)"

text \<open>The loop \<open>for (dim = 0; dim < SPACE_DIM; ++dim)\<close> adds to \<open>dist_squared\<close>, starting
  from \<open>0.0\<close>.\<close>

definition GetSquaredDistAtoB :: "nat \<Rightarrow> generator \<Rightarrow> double list \<Rightarrow> double list \<Rightarrow> double" where
  "GetSquaredDistAtoB SPACE_DIM g rLocation1 rLocation2 =
     foldl (\<lambda>dist_squared d.
              dist_squared + delta_this_dim g rLocation1 rLocation2 d
                           * delta_this_dim g rLocation1 rLocation2 d)
           0 [0..<SPACE_DIM]"

section \<open>Stream output used by GetFilenameFromParams\<close>

text \<open>
  The file name is built with \<open>operator<<\<close> on a \<open>std::stringstream\<close> after
  \<open>std::fixed\<close> and \<open>std::setprecision(3)\<close>. These are the standard library's
  conversions: an \<open>unsigned\<close> is written in decimal with no leading zero, a \<open>bool\<close>
  as \<open>1\<close> or \<open>0\<close> (\<open>boolalpha\<close> is never set), and a \<open>double\<close> in fixed notation
  with three digits after the point, the exact value rounded to the nearest thousandth
  and a tie to the even one, with a minus sign before a negative value.
\<close>

definition digit_char :: "nat \<Rightarrow> char" where
  "digit_char d = ''0123456789'' ! d"

fun put_nat :: "nat \<Rightarrow> string" where
  "put_nat n = (if n < 10 then [digit_char n] else put_nat (n div 10) @ [digit_char (n mod 10)])"

declare put_nat.simps [simp del]

definition put_unsigned :: "unsigned \<Rightarrow> string" where
  "put_unsigned u = put_nat (unat u)"

definition put_bool :: "bool \<Rightarrow> string" where
  "put_bool b = (if b then ''1'' else ''0'')"

definition round_half_even :: "real \<Rightarrow> nat" where
  "round_half_even y =
     (let f = nat \<lfloor>y\<rfloor>; r = y - real f in
      if r < 1 / 2 then f
      else if 1 / 2 < r then f + 1
      else if even f then f else f + 1)"

definition thousandths :: "double \<Rightarrow> nat" where
  "thousandths x = round_half_even (\<bar>x\<bar> * 1000)"

definition put_double :: "double \<Rightarrow> string" where
  "put_double x =
     (let m = thousandths x in
      (if x < 0 then ''-'' else [])
      @ put_nat (m div 1000) @ ''.''
      @ [digit_char (m div 100 mod 10), digit_char (m div 10 mod 10), digit_char (m mod 10)])"

section \<open>GetFilenameFromParams\<close>

text \<open>
  \<open>Exception\<close> is what \<open>EXCEPT_IF_NOT\<close> throws, \<open>NeverReached\<close> is the macro
  \<open>NEVER_REACHED\<close> in the default branch of the switch on \<open>SPACE_DIM\<close>.
\<close>

datatype error = Exception | NeverReached

definition GetFilenameFromParams :: "nat \<Rightarrow> generator \<Rightarrow> error + string" where
  "GetFilenameFromParams SPACE_DIM g =
     (let name = ''CachedRandomFields/'' in
      if SPACE_DIM = 1 then
        Inr (name @ ''x_''
             @ put_double (mLowerCorner g ! 0) @ ''_''
             @ put_double (mUpperCorner g ! 0) @ ''_''
             @ put_unsigned (mNumGridPts g ! 0) @ ''_''
             @ put_bool (mPeriodicity g ! 0) @ ''_''
             @ put_unsigned (mNumEigenvals g) @ ''_''
             @ put_double (mLengthScale g)
             @ ''.rfg'')
      else if SPACE_DIM = 2 then
        Inr (name @ ''xy_''
             @ put_double (mLowerCorner g ! 0) @ ''_'' @ put_double (mLowerCorner g ! 1) @ ''_''
             @ put_double (mUpperCorner g ! 0) @ ''_'' @ put_double (mUpperCorner g ! 1) @ ''_''
             @ put_unsigned (mNumGridPts g ! 0) @ ''_'' @ put_unsigned (mNumGridPts g ! 1) @ ''_''
             @ put_bool (mPeriodicity g ! 0) @ ''_'' @ put_bool (mPeriodicity g ! 1) @ ''_''
             @ put_unsigned (mNumEigenvals g) @ ''_''
             @ put_double (mLengthScale g)
             @ ''.rfg'')
      else if SPACE_DIM = 3 then
        Inr (name @ ''xyz_''
             @ put_double (mLowerCorner g ! 0) @ ''_'' @ put_double (mLowerCorner g ! 1) @ ''_''
             @ put_double (mLowerCorner g ! 2) @ ''_''
             @ put_double (mUpperCorner g ! 0) @ ''_'' @ put_double (mUpperCorner g ! 1) @ ''_''
             @ put_double (mUpperCorner g ! 2) @ ''_''
             @ put_unsigned (mNumGridPts g ! 0) @ ''_'' @ put_unsigned (mNumGridPts g ! 1) @ ''_''
             @ put_unsigned (mNumGridPts g ! 2) @ ''_''
             @ put_bool (mPeriodicity g ! 0) @ ''_'' @ put_bool (mPeriodicity g ! 1) @ ''_''
             @ put_bool (mPeriodicity g ! 2) @ ''_''
             @ put_unsigned (mNumEigenvals g) @ ''_''
             @ put_double (mLengthScale g)
             @ ''.rfg'')
      else Inl NeverReached)"

section \<open>Cache files\<close>

text \<open>
  Modelled from the spec: \<open>RandomFieldCacheHeader<SPACE_DIM>\<close> is declared in
  \<open>UniformGridRandomFieldGenerator.hpp\<close>, which is not among the sources. Its fields are
  the six that \<open>LoadFromCache\<close> and \<open>SaveToCache\<close> copy, of the types of the class members
  they are copied to and from.
\<close>

record header =
  h_mLowerCorner :: "double list"
  h_mUpperCorner :: "double list"
  h_mNumGridPts :: "unsigned list"
  h_mPeriodicity :: "bool list"
  h_mNumEigenvals :: unsigned
  h_mLengthScale :: double

text \<open>
  A cache file is read and written as raw memory: first \<open>sizeof(header)\<close> bytes, then
  doubles. Both directions use the same struct in the same build, so the header block is
  modelled by the header it holds and the rest of the file by the sequence of doubles in
  it. A file shorter than the header block is \<open>Truncated\<close>. Bytes at the end of a file
  that do not make up a whole double are left out.
\<close>

datatype file_contents = Truncated | CacheRecord header "double list"

text \<open>
  Modelled from the spec: \<open>FileFinder\<close> (\<open>FileFinder.hpp\<close>) is the external path
  resolver, with an existence test and the absolute path of a path relative to the test
  output directory. The file system holds the files by absolute path, and says which
  paths a stream can open for reading and for writing.
\<close>

record filesystem =
  files :: "string \<rightharpoonup> file_contents"
  can_read :: "string \<Rightarrow> bool"
  can_write :: "string \<Rightarrow> bool"
  test_output :: string

definition GetAbsolutePath :: "filesystem \<Rightarrow> string \<Rightarrow> string" where
  "GetAbsolutePath fs relativePath = test_output fs @ relativePath"

definition Exists :: "filesystem \<Rightarrow> string \<Rightarrow> bool" where
  "Exists fs relativePath = (files fs (GetAbsolutePath fs relativePath) \<noteq> None)"

text \<open>
  \<open>std::ifstream\<close>: \<open>is_open()\<close> holds when the file is there and may be read. The open
  stream is the data not yet read and the flag \<open>good()\<close>.
\<close>

definition ifstream_open :: "filesystem \<Rightarrow> string \<Rightarrow> file_contents option" where
  "ifstream_open fs path =
     (case files fs path of
        None \<Rightarrow> None
      | Some contents \<Rightarrow> if can_read fs path then Some contents else None)"

record ifstream =
  remaining :: "double list"
  good :: bool

text \<open>
  What the code reads before it is written: the local \<open>header\<close> of \<open>LoadFromCache\<close>
  and the storage of the two containers after \<open>resize\<close>. The values are arguments of the
  model, so that a theorem holds whatever they are.
\<close>

record indeterminate =
  uninit_header :: header
  uninit_vals :: "nat \<Rightarrow> double"
  uninit_vecs :: "nat \<Rightarrow> double"

text \<open>\<open>read((char*) &header, sizeof(header))\<close> on the stream just opened.\<close>

fun read_header :: "indeterminate \<Rightarrow> file_contents \<Rightarrow> header \<times> ifstream" where
  "read_header u Truncated = (uninit_header u, \<lparr>remaining = [], good = False\<rparr>)"
| "read_header u (CacheRecord h payload) = (h, \<lparr>remaining = payload, good = True\<rparr>)"

text \<open>
  \<open>read((char*) dest, n * sizeof(double))\<close>: a stream that is not good reads nothing; a
  stream that holds fewer than \<open>n\<close> doubles stores the ones it has and fails. The
  destination never holds fewer than \<open>n\<close> doubles where the code calls it.
\<close>

definition read_doubles :: "nat \<Rightarrow> double list \<Rightarrow> ifstream \<Rightarrow> double list \<times> ifstream" where
  "read_doubles n dest s =
     (if \<not> good s then (dest, s)
      else if n \<le> length (remaining s)
      then (take n (remaining s) @ drop n dest, s\<lparr>remaining := drop n (remaining s)\<rparr>)
      else (remaining s @ drop (length (remaining s)) dest,
            \<lparr>remaining = [], good = False\<rparr>))"

section \<open>LoadFromCache, SaveToCache and the constructor\<close>

text \<open>
  \<open>total_gridpts\<close> is \<open>std::accumulate\<close> with \<open>std::multiplies<unsigned>\<close> from \<open>1u\<close>.
  The first read asks for \<open>mNumEigenvals * sizeof(double)\<close> bytes, a product in
  \<open>size_t\<close>; the second for \<open>total_gridpts * mNumEigenvals * sizeof(double)\<close>, where the
  left product is taken in \<open>unsigned\<close> and wraps (\<open>size_t\<close> has 64 bits).
\<close>

definition LoadFromCache ::
  "indeterminate \<Rightarrow> filesystem \<Rightarrow> string \<Rightarrow> generator \<Rightarrow> error + generator" where
  "LoadFromCache u fs absoluteFilePath g =
     (case ifstream_open fs absoluteFilePath of
        None \<Rightarrow> Inl Exception
      | Some contents \<Rightarrow>
          (let (header, s0) = read_header u contents;
               g1 = g\<lparr>mLowerCorner := h_mLowerCorner header,
                      mUpperCorner := h_mUpperCorner header,
                      mNumGridPts := h_mNumGridPts header,
                      mPeriodicity := h_mPeriodicity header,
                      mNumEigenvals := h_mNumEigenvals header,
                      mLengthScale := h_mLengthScale header\<rparr>;
               total_gridpts = foldl (*) 1 (mNumGridPts g1);
               vals0 = map (uninit_vals u) [0..<unat (mNumEigenvals g1)];
               vecs0 = \<lparr>mrows = unat total_gridpts, mcols = unat (mNumEigenvals g1),
                        mdata = map (uninit_vecs u)
                                  [0..<unat total_gridpts * unat (mNumEigenvals g1)]\<rparr>;
               (vals, s1) = read_doubles (unat (mNumEigenvals g1)) vals0 s0;
               (vecs, s2) = read_doubles (unat (total_gridpts * mNumEigenvals g1)) (mdata vecs0) s1
           in Inr (g1\<lparr>mEigenvals := vals, mEigenvecs := vecs0\<lparr>mdata := vecs\<rparr>\<rparr>)))"

text \<open>
  \<open>SaveToCache\<close> opens the file named by the current parameters with \<open>std::ios::out\<close>,
  which creates or empties it, and writes the header, \<open>mEigenvals.size()\<close> doubles and
  \<open>mEigenvecs.size()\<close> doubles.
\<close>

definition SaveToCache :: "nat \<Rightarrow> filesystem \<Rightarrow> generator \<Rightarrow> error + filesystem" where
  "SaveToCache SPACE_DIM fs g =
     (case GetFilenameFromParams SPACE_DIM g of
        Inl e \<Rightarrow> Inl e
      | Inr name \<Rightarrow>
          (let path = GetAbsolutePath fs name in
           if \<not> can_write fs path then Inl Exception
           else
             (let header = \<lparr>h_mLowerCorner = mLowerCorner g,
                            h_mUpperCorner = mUpperCorner g,
                            h_mNumGridPts = mNumGridPts g,
                            h_mPeriodicity = mPeriodicity g,
                            h_mNumEigenvals = mNumEigenvals g,
                            h_mLengthScale = mLengthScale g\<rparr>
              in Inr (fs\<lparr>files := (files fs)(path \<mapsto>
                        CacheRecord header
                          (mEigenvals g @ take (msize (mEigenvecs g)) (mdata (mEigenvecs g))))\<rparr>))))"

text \<open>
  The constructor initialises the six parameters from its arguments; the two containers
  are default-constructed, that is empty. It returns the instance and the file system
  as it leaves it. The branch taken when no cached file exists is empty in the source.
\<close>

definition UniformGridRandomFieldGenerator ::
  "nat \<Rightarrow> indeterminate \<Rightarrow> filesystem \<Rightarrow> double list \<Rightarrow> double list \<Rightarrow> unsigned list
     \<Rightarrow> bool list \<Rightarrow> unsigned \<Rightarrow> double \<Rightarrow> error + generator \<times> filesystem" where
  "UniformGridRandomFieldGenerator SPACE_DIM u fs lowerCorner upperCorner numGridPts
       periodicity numEigenvals lengthScale =
     (let g = \<lparr>mLowerCorner = lowerCorner, mUpperCorner = upperCorner,
                mNumGridPts = numGridPts, mPeriodicity = periodicity,
                mNumEigenvals = numEigenvals, mLengthScale = lengthScale,
                mEigenvals = [], mEigenvecs = empty_matrix\<rparr>
      in case GetFilenameFromParams SPACE_DIM g of
           Inl e \<Rightarrow> Inl e
         | Inr name \<Rightarrow>
             if Exists fs name
             then (case LoadFromCache u fs (GetAbsolutePath fs name) g of
                     Inl e \<Rightarrow> Inl e
                   | Inr g' \<Rightarrow> Inr (g', fs))
             else Inr (g, fs))"

section \<open>The file name as the specification words it\<close>

text \<open>
  The format of the cache key in the words of the specification: a directory, a tag for
  the dimension, the fields in a fixed order with an underscore between them, and the
  extension. The three conversions are arguments, so that the same format can be stated
  with every numeric field in fixed notation, or with the conversions the code uses.
\<close>

definition dim_tag :: "nat \<Rightarrow> string" where
  "dim_tag n = (if n = 1 then ''x_'' else if n = 2 then ''xy_'' else ''xyz_'')"

fun join_underscore :: "string list \<Rightarrow> string" where
  "join_underscore [] = []"
| "join_underscore [f] = f"
| "join_underscore (f # fs) = f @ ''_'' @ join_underscore fs"

definition key_fields ::
  "(double \<Rightarrow> string) \<Rightarrow> (unsigned \<Rightarrow> string) \<Rightarrow> (bool \<Rightarrow> string) \<Rightarrow> generator \<Rightarrow> string list" where
  "key_fields pd pu pb g =
     map pd (mLowerCorner g) @ map pd (mUpperCorner g) @ map pu (mNumGridPts g)
     @ map pb (mPeriodicity g) @ [pu (mNumEigenvals g), pd (mLengthScale g)]"

definition key_format ::
  "(double \<Rightarrow> string) \<Rightarrow> (unsigned \<Rightarrow> string) \<Rightarrow> (bool \<Rightarrow> string) \<Rightarrow> nat \<Rightarrow> generator \<Rightarrow> string" where
  "key_format pd pu pb n g =
     ''CachedRandomFields/'' @ dim_tag n @ join_underscore (key_fields pd pu pb g) @ ''.rfg''"

text \<open>Every numeric field with three decimal digits, as the specification says: the
  numbers of grid points and of eigenvalues are written like the doubles. The flags, which
  are not numbers, are written as the code writes them.\<close>

definition spec_filename :: "nat \<Rightarrow> generator \<Rightarrow> string" where
  "spec_filename n g = key_format put_double (\<lambda>u. put_double (real (unat u))) put_bool n g"

text \<open>The shapes of the fields: a decimal number, and a number in fixed notation with an
  optional sign, at least one digit, a point and exactly three digits.\<close>

definition is_digit :: "char \<Rightarrow> bool" where
  "is_digit c = (c \<in> set ''0123456789'')"

definition is_decimal :: "string \<Rightarrow> bool" where
  "is_decimal s = (s \<noteq> [] \<and> list_all is_digit s)"

definition is_fixed3 :: "string \<Rightarrow> bool" where
  "is_fixed3 s =
     (let t = (case s of [] \<Rightarrow> [] | c # r \<Rightarrow> if c = CHR ''-'' then r else s) in
      4 < length t \<and> is_decimal (take (length t - 4) t) \<and> t ! (length t - 4) = CHR ''.''
      \<and> list_all is_digit (drop (length t - 3) t))"

text \<open>Two parameter sets whose fields are all written the same way.\<close>

definition same_fixed3_fields :: "nat \<Rightarrow> generator \<Rightarrow> generator \<Rightarrow> bool" where
  "same_fixed3_fields SPACE_DIM g g' =
     (list_all (\<lambda>d. put_double (mLowerCorner g ! d) = put_double (mLowerCorner g' ! d)
                  \<and> put_double (mUpperCorner g ! d) = put_double (mUpperCorner g' ! d)
                  \<and> put_unsigned (mNumGridPts g ! d) = put_unsigned (mNumGridPts g' ! d)
                  \<and> put_bool (mPeriodicity g ! d) = put_bool (mPeriodicity g' ! d))
        [0..<SPACE_DIM]
      \<and> put_unsigned (mNumEigenvals g) = put_unsigned (mNumEigenvals g')
      \<and> put_double (mLengthScale g) = put_double (mLengthScale g'))"

section \<open>Example data\<close>

text \<open>The two-dimensional example: a 3 by 3 grid on the unit square, four eigenvalues,
  length scale 0.5, as the constructor leaves it when no cached file exists; its file
  name; an empty file system; and zeros for what is read before it is written.\<close>

definition ex_cold :: generator where
  "ex_cold = \<lparr>mLowerCorner = [0, 0], mUpperCorner = [1, 1], mNumGridPts = [3, 3],
     mPeriodicity = [False, False], mNumEigenvals = 4, mLengthScale = 1 / 2,
     mEigenvals = [], mEigenvecs = empty_matrix\<rparr>"

definition ex_name :: string where
  "ex_name = ''CachedRandomFields/xy_0.000_0.000_1.000_1.000_3_3_0_0_4_0.500.rfg''"

definition ex_fs :: filesystem where
  "ex_fs = \<lparr>files = Map.empty, can_read = (\<lambda>p. True), can_write = (\<lambda>p. True),
     test_output = ''/testoutput/''\<rparr>"

definition ex_u :: indeterminate where
  "ex_u = \<lparr>uninit_header = \<lparr>h_mLowerCorner = [], h_mUpperCorner = [], h_mNumGridPts = [],
       h_mPeriodicity = [], h_mNumEigenvals = 0, h_mLengthScale = 0\<rparr>,
     uninit_vals = (\<lambda>i. 0), uninit_vecs = (\<lambda>i. 0)\<rparr>"

text \<open>A one-dimensional periodic domain of width 1.\<close>

definition ex_periodic :: generator where
  "ex_periodic = \<lparr>mLowerCorner = [0], mUpperCorner = [1], mNumGridPts = [2],
     mPeriodicity = [True], mNumEigenvals = 1, mLengthScale = 1 / 2,
     mEigenvals = [], mEigenvecs = empty_matrix\<rparr>"

text \<open>
  A one-dimensional cache record, the path it is stored at, a file system that holds it,
  and the instance it describes. \<open>ex_fs_locked\<close> holds the same file but lets nothing be
  opened.
\<close>

definition ex_header1 :: header where
  "ex_header1 = \<lparr>h_mLowerCorner = [0], h_mUpperCorner = [1], h_mNumGridPts = [2],
     h_mPeriodicity = [False], h_mNumEigenvals = 1, h_mLengthScale = 1 / 2\<rparr>"

definition ex_name1 :: string where
  "ex_name1 = ''CachedRandomFields/x_0.000_1.000_2_0_1_0.500.rfg''"

definition ex_fs_warm :: filesystem where
  "ex_fs_warm = ex_fs\<lparr>files := (files ex_fs)(GetAbsolutePath ex_fs ex_name1 \<mapsto>
     CacheRecord ex_header1 ([2] @ [7 / 10, - 7 / 10] @ []))\<rparr>"

definition ex_fs_locked :: filesystem where
  "ex_fs_locked = ex_fs_warm\<lparr>can_read := (\<lambda>p. False), can_write := (\<lambda>p. False)\<rparr>"

definition ex_loaded :: generator where
  "ex_loaded = \<lparr>mLowerCorner = [0], mUpperCorner = [1], mNumGridPts = [2],
     mPeriodicity = [False], mNumEigenvals = 1, mLengthScale = 1 / 2,
     mEigenvals = [2],
     mEigenvecs = \<lparr>mrows = 2, mcols = 1, mdata = [7 / 10, - 7 / 10]\<rparr>\<rparr>"

text \<open>The instance the constructor builds from a lower corner of 0.0004 before it looks
  for a cached file.\<close>

definition ex_args1 :: generator where
  "ex_args1 = \<lparr>mLowerCorner = [1 / 2500], mUpperCorner = [1], mNumGridPts = [2],
     mPeriodicity = [False], mNumEigenvals = 1, mLengthScale = 1 / 2,
     mEigenvals = [], mEigenvecs = empty_matrix\<rparr>"

text \<open>The file that \<open>SaveToCache\<close> writes for \<open>ex_cold\<close>: a header and no doubles.\<close>

definition ex_fs_cold_saved :: filesystem where
  "ex_fs_cold_saved = ex_fs\<lparr>files := (files ex_fs)(GetAbsolutePath ex_fs ex_name \<mapsto>
     CacheRecord \<lparr>h_mLowerCorner = [0, 0], h_mUpperCorner = [1, 1], h_mNumGridPts = [3, 3],
       h_mPeriodicity = [False, False], h_mNumEigenvals = 4, h_mLengthScale = 1 / 2\<rparr> [])\<rparr>"

text \<open>The same file with two more doubles after the record.\<close>

definition ex_fs_long :: filesystem where
  "ex_fs_long = ex_fs\<lparr>files := (files ex_fs)(GetAbsolutePath ex_fs ex_name1 \<mapsto>
     CacheRecord ex_header1 ([2] @ [7 / 10, - 7 / 10] @ [9, 9]))\<rparr>"

text \<open>A two-dimensional and a three-dimensional instance with their eigenpairs, and
  the names of their cache files.\<close>

definition ex_loaded2 :: generator where
  "ex_loaded2 = \<lparr>mLowerCorner = [0, 0], mUpperCorner = [1, 1], mNumGridPts = [2, 1],
     mPeriodicity = [False, True], mNumEigenvals = 1, mLengthScale = 1 / 2,
     mEigenvals = [3],
     mEigenvecs = \<lparr>mrows = 2, mcols = 1, mdata = [1 / 2, 1 / 4]\<rparr>\<rparr>"

definition ex_name2 :: string where
  "ex_name2 = ''CachedRandomFields/xy_0.000_0.000_1.000_1.000_2_1_0_1_1_0.500.rfg''"

definition ex_loaded3 :: generator where
  "ex_loaded3 = \<lparr>mLowerCorner = [0, 0, 0], mUpperCorner = [1, 1, 1], mNumGridPts = [1, 2, 1],
     mPeriodicity = [False, False, False], mNumEigenvals = 2, mLengthScale = 1 / 2,
     mEigenvals = [3, 1],
     mEigenvecs = \<lparr>mrows = 2, mcols = 2, mdata = [1 / 2, 1 / 4, 1 / 4, - 1 / 2]\<rparr>\<rparr>"

definition ex_name3 :: string where
  "ex_name3 = ''CachedRandomFields/xyz_0.000_0.000_0.000_1.000_1.000_1.000_1_2_1_0_0_0_2_0.500.rfg''"

text \<open>A cache record whose numbers of grid points have the product \<open>2 ^ 32\<close>, with one
  eigenvalue and two more doubles after it.\<close>

definition ex_header_wrap :: header where
  "ex_header_wrap = \<lparr>h_mLowerCorner = [0, 0], h_mUpperCorner = [1, 1],
     h_mNumGridPts = [65536, 65536], h_mPeriodicity = [False, False],
     h_mNumEigenvals = 1, h_mLengthScale = 1 / 2\<rparr>"

definition ex_name_wrap :: string where
  "ex_name_wrap = ''CachedRandomFields/xy_0.000_0.000_1.000_1.000_65536_65536_0_0_1_0.500.rfg''"

definition ex_fs_wrap :: filesystem where
  "ex_fs_wrap = ex_fs\<lparr>files := (files ex_fs)(GetAbsolutePath ex_fs ex_name_wrap \<mapsto>
     CacheRecord ex_header_wrap ([5] @ [] @ [7, 7]))\<rparr>"

section \<open>Lemmas on the distance\<close>

lemma delta_this_dim_commute:
  "delta_this_dim g a b d = delta_this_dim g b a d"
  by (simp add: delta_this_dim_def abs_minus_commute)

lemma foldl_add_sum:
  "foldl (\<lambda>acc d. acc + f d) s [0..<n] = s + (\<Sum>d = 0..<n. f d)"
  for f :: "nat \<Rightarrow> real"
  by (induction n) simp_all

section \<open>Lemmas on unsigned products\<close>

lemma unat_foldl_mult:
  "unat (foldl (*) a xs) = (unat a * prod_list (map unat xs)) mod 2 ^ 32"
  for a :: unsigned
proof (induction xs arbitrary: a)
  case Nil
  have "unat a < 2 ^ 32" using unsigned_less [of a, where ?'a = nat] by simp
  then show ?case by simp
next
  case (Cons x xs)
  have "unat (foldl (*) a (x # xs)) = (unat (a * x) * prod_list (map unat xs)) mod 2 ^ 32"
    using Cons.IH [of "a * x"] by simp
  also have "\<dots> = ((unat a * unat x) mod 2 ^ 32 * prod_list (map unat xs)) mod 2 ^ 32"
    by (simp add: unat_word_ariths)
  also have "\<dots> = (unat a * unat x * prod_list (map unat xs)) mod 2 ^ 32"
    by (simp add: mod_mult_left_eq)
  finally show ?case by (simp add: mult.assoc)
qed

lemma prod_list_unat_fits:
  fixes xs :: "unsigned list"
  assumes "prod_list (map unat xs) < 2 ^ 32"
  shows "unat (foldl (*) 1 xs) = prod_list (map unat xs)"
  using unat_foldl_mult [of 1 xs] assms by simp

section \<open>Lemmas on reading a cache file\<close>

lemma read_doubles_exact:
  assumes "good s" and "remaining s = xs @ rest" and "length xs = n"
  shows "read_doubles n dest s = (xs @ drop n dest, s\<lparr>remaining := rest\<rparr>)"
  using assms by (simp add: read_doubles_def)

lemma LoadFromCache_complete:
  assumes opened: "ifstream_open fs path = Some (CacheRecord h (evals @ evecs @ rest))"
    and n: "length evals = unat (h_mNumEigenvals h)"
    and m: "length evecs = unat (foldl (*) 1 (h_mNumGridPts h) * h_mNumEigenvals h)"
  shows "LoadFromCache u fs path g =
           Inr \<lparr>mLowerCorner = h_mLowerCorner h, mUpperCorner = h_mUpperCorner h,
                mNumGridPts = h_mNumGridPts h, mPeriodicity = h_mPeriodicity h,
                mNumEigenvals = h_mNumEigenvals h, mLengthScale = h_mLengthScale h,
                mEigenvals = evals,
                mEigenvecs =
                  \<lparr>mrows = unat (foldl (*) 1 (h_mNumGridPts h)),
                   mcols = unat (h_mNumEigenvals h),
                   mdata = evecs @ map (uninit_vecs u)
                     [length evecs..<unat (foldl (*) 1 (h_mNumGridPts h)) * unat (h_mNumEigenvals h)]\<rparr>\<rparr>"
proof -
  let ?s0 = "\<lparr>remaining = evals @ evecs @ rest, good = True\<rparr>"
  let ?s1 = "\<lparr>remaining = evecs @ rest, good = True\<rparr>"
  let ?T = "foldl (*) 1 (h_mNumGridPts h)"
  let ?k = "h_mNumEigenvals h"
  have r1: "read_doubles (unat ?k) (map (uninit_vals u) [0..<unat ?k]) ?s0 = (evals, ?s1)"
    using read_doubles_exact [of ?s0 evals "evecs @ rest" "unat ?k" "map (uninit_vals u) [0..<unat ?k]"] n
    by simp
  have r2: "read_doubles (unat (?T * ?k)) (map (uninit_vecs u) [0..<unat ?T * unat ?k]) ?s1
           = (evecs @ map (uninit_vecs u) [length evecs..<unat ?T * unat ?k],
              \<lparr>remaining = rest, good = True\<rparr>)"
    using read_doubles_exact [of ?s1 evecs rest "unat (?T * ?k)" "map (uninit_vecs u) [0..<unat ?T * unat ?k]"] m
    by (simp add: drop_map)
  show ?thesis
    unfolding LoadFromCache_def opened
    by (simp add: r1 r2 Let_def)
qed

lemma LoadFromCache_not_open:
  "ifstream_open fs path = None \<Longrightarrow> LoadFromCache u fs path g = Inl Exception"
  by (simp add: LoadFromCache_def)

lemma LoadFromCache_open:
  "ifstream_open fs path = Some c \<Longrightarrow> \<not> isl (LoadFromCache u fs path g)"
  by (simp add: LoadFromCache_def Let_def split: prod.splits)

section \<open>Lemmas on the written fields\<close>

lemma is_digit_digit_char: "d < 10 \<Longrightarrow> is_digit (digit_char d)"
  unfolding is_digit_def digit_char_def by (rule nth_mem) simp

lemma put_nat_digits: "put_nat n \<noteq> [] \<and> list_all is_digit (put_nat n)"
proof (induction n rule: put_nat.induct)
  case (1 n)
  show ?case
  proof (cases "n < 10")
    case True
    then show ?thesis by (subst (1 2) put_nat.simps) (simp add: is_digit_digit_char)
  next
    case False
    with 1 show ?thesis by (subst (1 2) put_nat.simps) (simp add: is_digit_digit_char)
  qed
qed

lemma is_decimal_put_nat: "is_decimal (put_nat n)"
  using put_nat_digits [of n] by (simp add: is_decimal_def)

lemma is_decimal_put_unsigned: "is_decimal (put_unsigned u)"
  by (simp add: put_unsigned_def is_decimal_put_nat)

lemma is_decimal_no_sign: "is_decimal s \<Longrightarrow> hd s \<noteq> CHR ''-''"
  by (cases s) (auto simp: is_decimal_def is_digit_def)

lemma is_fixed3_unsigned:
  assumes "is_decimal ds" and "is_digit a" and "is_digit b" and "is_digit c"
  shows "is_fixed3 (ds @ ''.'' @ [a, b, c])"
proof -
  have "ds \<noteq> []" using assms(1) by (simp add: is_decimal_def)
  then obtain x xs where ds: "ds = x # xs" by (cases ds) auto
  have x: "x \<noteq> CHR ''-''" using is_decimal_no_sign [OF assms(1)] ds by simp
  have "is_decimal (take (length ds) (ds @ ''.'' @ [a, b, c]))" using assms(1) by simp
  moreover have "(ds @ ''.'' @ [a, b, c]) ! length ds = CHR ''.''" by (simp add: nth_append)
  moreover have "drop (Suc (length ds)) (ds @ ''.'' @ [a, b, c]) = [a, b, c]" by simp
  ultimately show ?thesis
    using assms(2-4) x unfolding is_fixed3_def ds by (simp add: Let_def)
qed

lemma is_fixed3_signed:
  assumes "is_decimal ds" and "is_digit a" and "is_digit b" and "is_digit c"
  shows "is_fixed3 (''-'' @ ds @ ''.'' @ [a, b, c])"
proof -
  have "is_decimal (take (length ds) (ds @ ''.'' @ [a, b, c]))" using assms(1) by simp
  moreover have "(ds @ ''.'' @ [a, b, c]) ! length ds = CHR ''.''" by (simp add: nth_append)
  moreover have "drop (Suc (length ds)) (ds @ ''.'' @ [a, b, c]) = [a, b, c]" by simp
  moreover have "ds \<noteq> []" using assms(1) by (simp add: is_decimal_def)
  ultimately show ?thesis
    using assms(2-4) unfolding is_fixed3_def by (simp add: Let_def)
qed

lemma is_fixed3_put_double: "is_fixed3 (put_double x)"
proof -
  let ?m = "thousandths x"
  have d: "is_digit (digit_char (?m div 100 mod 10))" "is_digit (digit_char (?m div 10 mod 10))"
    "is_digit (digit_char (?m mod 10))"
    by (simp_all add: is_digit_digit_char)
  show ?thesis
  proof (cases "x < 0")
    case True
    then show ?thesis
      using is_fixed3_signed [OF is_decimal_put_nat d, of "?m div 1000"]
      by (simp add: put_double_def Let_def)
  next
    case False
    then show ?thesis
      using is_fixed3_unsigned [OF is_decimal_put_nat d, of "?m div 1000"]
      by (simp add: put_double_def Let_def)
  qed
qed

section \<open>Lemmas on the file name\<close>

lemma length1D: "length xs = 1 \<Longrightarrow> \<exists>a. xs = [a]"
  by (cases xs) auto

lemma length2D: "length xs = 2 \<Longrightarrow> \<exists>a b. xs = [a, b]"
  by (cases xs; cases "tl xs") auto

lemma length3D: "length xs = 3 \<Longrightarrow> \<exists>a b c. xs = [a, b, c]"
  by (cases xs; cases "tl xs"; cases "tl (tl xs)") auto

lemma GetFilenameFromParams_key_format:
  assumes "SPACE_DIM \<in> {1, 2, 3}"
    and "length (mLowerCorner g) = SPACE_DIM" and "length (mUpperCorner g) = SPACE_DIM"
    and "length (mNumGridPts g) = SPACE_DIM" and "length (mPeriodicity g) = SPACE_DIM"
  shows "GetFilenameFromParams SPACE_DIM g
           = Inr (key_format put_double put_unsigned put_bool SPACE_DIM g)"
proof -
  consider "SPACE_DIM = 1" | "SPACE_DIM = 2" | "SPACE_DIM = 3" using assms(1) by auto
  then show ?thesis
  proof cases
    case 1
    from assms(2-5) [unfolded 1] obtain l u n p where
      "mLowerCorner g = [l]" "mUpperCorner g = [u]" "mNumGridPts g = [n]" "mPeriodicity g = [p]"
      by (meson length1D)
    then show ?thesis
      unfolding 1 GetFilenameFromParams_def key_format_def key_fields_def dim_tag_def
      by simp
  next
    case 2
    from assms(2-5) [unfolded 2] obtain l0 l1 u0 u1 n0 n1 p0 p1 where
      "mLowerCorner g = [l0, l1]" "mUpperCorner g = [u0, u1]" "mNumGridPts g = [n0, n1]"
      "mPeriodicity g = [p0, p1]"
      by (meson length2D)
    then show ?thesis
      unfolding 2 GetFilenameFromParams_def key_format_def key_fields_def dim_tag_def
      by simp
  next
    case 3
    from assms(2-5) [unfolded 3] obtain l0 l1 l2 u0 u1 u2 n0 n1 n2 p0 p1 p2 where
      "mLowerCorner g = [l0, l1, l2]" "mUpperCorner g = [u0, u1, u2]"
      "mNumGridPts g = [n0, n1, n2]" "mPeriodicity g = [p0, p1, p2]"
      by (meson length3D)
    then show ?thesis
      unfolding 3 GetFilenameFromParams_def key_format_def key_fields_def dim_tag_def
      by simp
  qed
qed

lemma same_fields_same_name:
  assumes "same_fixed3_fields SPACE_DIM g g'"
  shows "GetFilenameFromParams SPACE_DIM g = GetFilenameFromParams SPACE_DIM g'"
proof -
  have u1: "[0..<1] = [0]" and u2: "[0..<2] = [0, 1]" and u3: "[0..<3] = [0, 1, 2]"
    by (simp_all add: upt_rec)
  consider "SPACE_DIM = 1" | "SPACE_DIM = 2" | "SPACE_DIM = 3" | "SPACE_DIM \<notin> {1, 2, 3}"
    by auto
  then show ?thesis
  proof cases
    case 1
    with assms show ?thesis
      by (simp add: same_fixed3_fields_def GetFilenameFromParams_def u1)
  next
    case 2
    with assms show ?thesis
      by (simp add: same_fixed3_fields_def GetFilenameFromParams_def u2)
  next
    case 3
    with assms show ?thesis
      by (simp add: same_fixed3_fields_def GetFilenameFromParams_def u3)
  next
    case 4
    then show ?thesis by (simp add: GetFilenameFromParams_def)
  qed
qed

section \<open>The examples evaluated\<close>

lemmas put_defs = put_double_def thousandths_def round_half_even_def put_nat.simps
  digit_char_def put_unsigned_def put_bool_def

lemma put_double_0: "put_double 0 = ''0.000''" by (simp add: put_defs)
lemma put_double_1: "put_double 1 = ''1.000''" by (simp add: put_defs)
lemma put_double_3: "put_double 3 = ''3.000''" by (simp add: put_defs)
lemma put_double_4: "put_double 4 = ''4.000''" by (simp add: put_defs)
lemma put_double_half: "put_double (1 / 2) = ''0.500''" by (simp add: put_defs)
lemma put_double_small: "put_double (1 / 2500) = ''0.000''" by (simp add: put_defs)
lemma put_unsigned_1: "put_unsigned 1 = ''1''" by (simp add: put_defs)
lemma put_unsigned_2: "put_unsigned 2 = ''2''" by (simp add: put_defs)
lemma put_unsigned_3: "put_unsigned 3 = ''3''" by (simp add: put_defs)
lemma put_unsigned_4: "put_unsigned 4 = ''4''" by (simp add: put_defs)

lemma ex_cold_name: "GetFilenameFromParams 2 ex_cold = Inr ex_name"
  by (simp add: GetFilenameFromParams_def ex_cold_def ex_name_def put_double_0 put_double_1
      put_double_half put_unsigned_3 put_unsigned_4 put_bool_def)

lemma ex_loaded_name: "GetFilenameFromParams 1 ex_loaded = Inr ex_name1"
  by (simp add: GetFilenameFromParams_def ex_loaded_def ex_name1_def put_double_0 put_double_1
      put_double_half put_unsigned_1 put_unsigned_2 put_bool_def)

lemma ex_args1_name: "GetFilenameFromParams 1 ex_args1 = Inr ex_name1"
  by (simp add: GetFilenameFromParams_def ex_args1_def ex_name1_def put_double_small
      put_double_1 put_double_half put_unsigned_1 put_unsigned_2 put_bool_def)

lemma ex_loaded2_name: "GetFilenameFromParams 2 ex_loaded2 = Inr ex_name2"
  by (simp add: GetFilenameFromParams_def ex_loaded2_def ex_name2_def put_double_0 put_double_1
      put_double_half put_unsigned_1 put_unsigned_2 put_bool_def)

lemma ex_loaded3_name: "GetFilenameFromParams 3 ex_loaded3 = Inr ex_name3"
  by (simp add: GetFilenameFromParams_def ex_loaded3_def ex_name3_def put_double_0 put_double_1
      put_double_half put_unsigned_1 put_unsigned_2 put_bool_def)

lemma ex_cold_spec_filename:
  "spec_filename 2 ex_cold
     = ''CachedRandomFields/xy_0.000_0.000_1.000_1.000_3.000_3.000_0_0_4.000_0.500.rfg''"
  by (simp add: spec_filename_def key_format_def key_fields_def dim_tag_def ex_cold_def
      put_double_0 put_double_1 put_double_3 put_double_4 put_double_half put_bool_def)

section \<open>The claims\<close>

text \<open>
  Claim C1 says that a construction that finds no cached file computes the eigenpairs
  and saves them. The constructor does neither: for the two-dimensional example on an
  empty file system it returns the instance with empty containers, and the file system
  it leaves still has no file under the derived key.
\<close>

theorem constructor_cold_no_save:
  "UniformGridRandomFieldGenerator 2 ex_u ex_fs [0, 0] [1, 1] [3, 3] [False, False] 4 (1 / 2)
     = Inr (ex_cold, ex_fs)
   \<and> GetFilenameFromParams 2 ex_cold = Inr ex_name
   \<and> files ex_fs (GetAbsolutePath ex_fs ex_name) = None
   \<and> mEigenvals ex_cold = []
   \<and> mEigenvecs ex_cold = empty_matrix"
proof -
  have c: "\<not> Exists ex_fs ex_name" by (simp add: Exists_def ex_fs_def)
  have "UniformGridRandomFieldGenerator 2 ex_u ex_fs [0, 0] [1, 1] [3, 3] [False, False] 4 (1 / 2)
     = Inr (ex_cold, ex_fs)"
    using c ex_cold_name unfolding UniformGridRandomFieldGenerator_def
    by (simp add: ex_cold_def)
  then show ?thesis
    using ex_cold_name by (simp add: ex_fs_def ex_cold_def)
qed



text \<open>
  Claim C3, amended. For an instance whose eigenvalue sequence holds \<open>mNumEigenvals\<close>
  doubles and whose eigenvector matrix has as many rows as the product of \<open>mNumGridPts\<close>
  and \<open>mNumEigenvals\<close> columns, with fewer than \<open>2 ^ 32\<close> entries, in a dimension that has
  a file name and on a file that can be written and read, \<open>SaveToCache\<close> succeeds and
  \<open>LoadFromCache\<close> on the file it wrote yields the instance again: the same parameters,
  the same doubles in the same order, whatever the loading instance held before.
\<close>

theorem save_load_round_trip:
  assumes name: "GetFilenameFromParams SPACE_DIM g = Inr name"
    and writable: "can_write fs (GetAbsolutePath fs name)"
    and readable: "can_read fs (GetAbsolutePath fs name)"
    and vals: "length (mEigenvals g) = unat (mNumEigenvals g)"
    and rows: "mrows (mEigenvecs g) = unat (foldl (*) 1 (mNumGridPts g))"
    and cols: "mcols (mEigenvecs g) = unat (mNumEigenvals g)"
    and data: "length (mdata (mEigenvecs g)) = mrows (mEigenvecs g) * mcols (mEigenvecs g)"
    and fits: "mrows (mEigenvecs g) * mcols (mEigenvecs g) < 2 ^ 32"
  shows "\<exists>fs'. SaveToCache SPACE_DIM fs g = Inr fs'
           \<and> LoadFromCache u fs' (GetAbsolutePath fs name) g0 = Inr g"
proof -
  let ?path = "GetAbsolutePath fs name"
  let ?h = "\<lparr>h_mLowerCorner = mLowerCorner g, h_mUpperCorner = mUpperCorner g,
             h_mNumGridPts = mNumGridPts g, h_mPeriodicity = mPeriodicity g,
             h_mNumEigenvals = mNumEigenvals g, h_mLengthScale = mLengthScale g\<rparr>"
  let ?fs' = "fs\<lparr>files := (files fs)(?path \<mapsto>
                CacheRecord ?h (mEigenvals g @ mdata (mEigenvecs g) @ []))\<rparr>"
  have save: "SaveToCache SPACE_DIM fs g = Inr ?fs'"
    using name writable data by (simp add: SaveToCache_def Let_def msize_def)
  have opened: "ifstream_open ?fs' ?path
                  = Some (CacheRecord ?h (mEigenvals g @ mdata (mEigenvecs g) @ []))"
    using readable by (simp add: ifstream_open_def)
  have nowrap: "unat (foldl (*) 1 (mNumGridPts g) * mNumEigenvals g)
                  = unat (foldl (*) 1 (mNumGridPts g)) * unat (mNumEigenvals g)"
    using fits rows cols by (simp add: unat_word_ariths)
  have n: "length (mEigenvals g) = unat (h_mNumEigenvals ?h)" using vals by simp
  have m: "length (mdata (mEigenvecs g))
             = unat (foldl (*) 1 (h_mNumGridPts ?h) * h_mNumEigenvals ?h)"
    using data rows cols nowrap by simp
  have "LoadFromCache u ?fs' ?path g0 = Inr g"
    using LoadFromCache_complete [OF opened n m, of u g0] data rows cols
    by simp
  with save show ?thesis by blast
qed

theorem save_load_round_trip_witness:
  "SaveToCache 1 ex_fs ex_loaded = Inr ex_fs_warm
   \<and> LoadFromCache ex_u ex_fs_warm (GetAbsolutePath ex_fs ex_name1) ex_cold = Inr ex_loaded
   \<and> (\<exists>fs'. SaveToCache 2 ex_fs ex_loaded2 = Inr fs'
          \<and> LoadFromCache ex_u fs' (GetAbsolutePath ex_fs ex_name2) ex_cold = Inr ex_loaded2)
   \<and> (\<exists>fs'. SaveToCache 3 ex_fs ex_loaded3 = Inr fs'
          \<and> LoadFromCache ex_u fs' (GetAbsolutePath ex_fs ex_name3) ex_cold = Inr ex_loaded3)"
proof -
  have writable: "can_write ex_fs (GetAbsolutePath ex_fs n)" for n
    by (simp add: ex_fs_def)
  have readable: "can_read ex_fs (GetAbsolutePath ex_fs n)" for n
    by (simp add: ex_fs_def)
  have save: "SaveToCache 1 ex_fs ex_loaded = Inr ex_fs_warm"
    using ex_loaded_name writable
    by (simp add: SaveToCache_def Let_def msize_def ex_fs_warm_def ex_header1_def)
      (simp add: ex_loaded_def)
  obtain fs' where "SaveToCache 1 ex_fs ex_loaded = Inr fs'"
    and load: "LoadFromCache ex_u fs' (GetAbsolutePath ex_fs ex_name1) ex_cold = Inr ex_loaded"
    using save_load_round_trip [OF ex_loaded_name writable readable, of ex_u ex_cold]
    by (auto simp: ex_loaded_def)
  with save have "fs' = ex_fs_warm" by simp
  with load have one: "LoadFromCache ex_u ex_fs_warm (GetAbsolutePath ex_fs ex_name1) ex_cold
      = Inr ex_loaded"
    by simp
  have two: "\<exists>fs'. SaveToCache 2 ex_fs ex_loaded2 = Inr fs'
      \<and> LoadFromCache ex_u fs' (GetAbsolutePath ex_fs ex_name2) ex_cold = Inr ex_loaded2"
    using save_load_round_trip [OF ex_loaded2_name writable readable, of ex_u ex_cold]
    by (simp add: ex_loaded2_def)
  have three: "\<exists>fs'. SaveToCache 3 ex_fs ex_loaded3 = Inr fs'
      \<and> LoadFromCache ex_u fs' (GetAbsolutePath ex_fs ex_name3) ex_cold = Inr ex_loaded3"
    using save_load_round_trip [OF ex_loaded3_name writable readable, of ex_u ex_cold]
    by (simp add: ex_loaded3_def)
  from save one two three show ?thesis by blast
qed

text \<open>
  The claim as stated, for every state, fails on the instance the constructor builds when
  no cached file exists: \<open>mNumEigenvals\<close> is 4 and the containers are empty, so the file
  holds a header and no doubles, and loading it gives an eigenvalue sequence of length 4.
\<close>

theorem save_load_round_trip_counterexample:
  "SaveToCache 2 ex_fs ex_cold = Inr ex_fs_cold_saved
   \<and> LoadFromCache ex_u ex_fs_cold_saved (GetAbsolutePath ex_fs ex_name) ex_cold \<noteq> Inr ex_cold"
proof -
  have save: "SaveToCache 2 ex_fs ex_cold = Inr ex_fs_cold_saved"
    using ex_cold_name
    by (simp add: SaveToCache_def Let_def msize_def ex_fs_cold_saved_def)
      (simp add: ex_cold_def ex_fs_def empty_matrix_def)
  have "length (mEigenvals (projr (LoadFromCache ex_u ex_fs_cold_saved
               (GetAbsolutePath ex_fs ex_name) ex_cold))) = 4"
    by (simp add: LoadFromCache_def ifstream_open_def ex_fs_cold_saved_def ex_fs_def
        GetAbsolutePath_def read_doubles_def Let_def)
  then have "LoadFromCache ex_u ex_fs_cold_saved (GetAbsolutePath ex_fs ex_name) ex_cold
               \<noteq> Inr ex_cold"
    by (auto simp: ex_cold_def)
  with save show ?thesis by simp
qed

text \<open>
  Claim C4, amended. In dimension 1, 2 or 3 the file name is the directory
  \<open>CachedRandomFields/\<close>, the tag \<open>x_\<close>, \<open>xy_\<close> or \<open>xyz_\<close>, the lower corner, the upper
  corner, the numbers of grid points, the periodicity flags, the number of eigenvalues and
  the length scale, in this order with an underscore between two fields, and the extension
  \<open>.rfg\<close>. The corners and the length scale are written in fixed notation with exactly
  three digits after the point; the numbers of grid points and of eigenvalues are written
  as decimal integers, and each flag as \<open>0\<close> or \<open>1\<close>.
\<close>

theorem GetFilenameFromParams_format:
  assumes "SPACE_DIM \<in> {1, 2, 3}"
    and "length (mLowerCorner g) = SPACE_DIM" and "length (mUpperCorner g) = SPACE_DIM"
    and "length (mNumGridPts g) = SPACE_DIM" and "length (mPeriodicity g) = SPACE_DIM"
  shows "GetFilenameFromParams SPACE_DIM g
           = Inr (key_format put_double put_unsigned put_bool SPACE_DIM g)
         \<and> list_all is_fixed3 (map put_double (mLowerCorner g @ mUpperCorner g @ [mLengthScale g]))
         \<and> list_all is_decimal (map put_unsigned (mNumGridPts g @ [mNumEigenvals g]))
         \<and> list_all (\<lambda>s. s = ''0'' \<or> s = ''1'') (map put_bool (mPeriodicity g))"
proof (intro conjI)
  show "GetFilenameFromParams SPACE_DIM g
          = Inr (key_format put_double put_unsigned put_bool SPACE_DIM g)"
    using assms by (rule GetFilenameFromParams_key_format)
  show "list_all is_fixed3 (map put_double (mLowerCorner g @ mUpperCorner g @ [mLengthScale g]))"
    by (auto simp: list_all_iff is_fixed3_put_double)
  show "list_all is_decimal (map put_unsigned (mNumGridPts g @ [mNumEigenvals g]))"
    by (auto simp: list_all_iff is_decimal_put_unsigned)
  show "list_all (\<lambda>s. s = ''0'' \<or> s = ''1'') (map put_bool (mPeriodicity g))"
    by (auto simp: list_all_iff put_bool_def)
qed

theorem GetFilenameFromParams_format_witness:
  "GetFilenameFromParams 2 ex_cold = Inr (key_format put_double put_unsigned put_bool 2 ex_cold)
   \<and> key_format put_double put_unsigned put_bool 2 ex_cold
       = ''CachedRandomFields/xy_0.000_0.000_1.000_1.000_3_3_0_0_4_0.500.rfg''"
proof -
  have "(2 :: nat) \<in> {1, 2, 3}" by simp
  moreover have "length (mLowerCorner ex_cold) = 2" "length (mUpperCorner ex_cold) = 2"
    "length (mNumGridPts ex_cold) = 2" "length (mPeriodicity ex_cold) = 2"
    by (simp_all add: ex_cold_def)
  ultimately have "GetFilenameFromParams 2 ex_cold
      = Inr (key_format put_double put_unsigned put_bool 2 ex_cold)"
    using GetFilenameFromParams_format [of 2 ex_cold] by blast
  then show ?thesis using ex_cold_name by (simp add: ex_name_def)
qed

text \<open>
  The claim as stated gives every numeric field three decimal digits. For the example the
  code writes the numbers of grid points and of eigenvalues as \<open>3\<close>, \<open>3\<close> and \<open>4\<close>,
  not as \<open>3.000\<close>, \<open>3.000\<close> and \<open>4.000\<close>.
\<close>

theorem GetFilenameFromParams_format_counterexample:
  "GetFilenameFromParams 2 ex_cold
     = Inr ''CachedRandomFields/xy_0.000_0.000_1.000_1.000_3_3_0_0_4_0.500.rfg''
   \<and> spec_filename 2 ex_cold
     = ''CachedRandomFields/xy_0.000_0.000_1.000_1.000_3.000_3.000_0_0_4.000_0.500.rfg''
   \<and> GetFilenameFromParams 2 ex_cold \<noteq> Inr (spec_filename 2 ex_cold)"
  using ex_cold_name by (simp add: ex_cold_spec_filename ex_name_def)

text \<open>
  Claim C5. The squared distance is symmetric: for every pair of coordinates \<open>a\<close> and
  \<open>b\<close>, in every dimension and for every domain and periodicity, the distance from
  \<open>a\<close> to \<open>b\<close> equals the distance from \<open>b\<close> to \<open>a\<close>.
\<close>

theorem GetSquaredDistAtoB_symmetric:
  "GetSquaredDistAtoB SPACE_DIM g a b = GetSquaredDistAtoB SPACE_DIM g b a"
  unfolding GetSquaredDistAtoB_def
  by (simp add: delta_this_dim_commute [of g a b])

text \<open>
  Claim C6. The squared distance is the sum over the axes of the square of \<open>delta\<close>,
  where \<open>delta\<close> is the absolute difference of the two coordinates on that axis,
  replaced on a periodic axis by the smaller of \<open>delta\<close> and the width of the domain
  minus \<open>delta\<close>. In particular, on one periodic axis of width \<open>W\<close> the points
  \<open>0\<close> and \<open>W - \<epsilon>\<close>, for an offset \<open>\<epsilon>\<close> between \<open>0\<close> and half the width, are at
  squared distance \<open>\<epsilon>\<^sup>2\<close>, which is not \<open>(W - \<epsilon>)\<^sup>2\<close> when \<open>\<epsilon>\<close> is less than
  half the width.
\<close>

theorem GetSquaredDistAtoB_periodic:
  "GetSquaredDistAtoB SPACE_DIM g p1 p2 =
     (\<Sum>d = 0..<SPACE_DIM.
        (let delta = \<bar>p2 ! d - p1 ! d\<bar> in
         if mPeriodicity g ! d
         then min delta ((mUpperCorner g ! d - mLowerCorner g ! d) - delta)
         else delta)\<^sup>2)
   \<and> (mPeriodicity g ! 0 \<and> mUpperCorner g ! 0 - mLowerCorner g ! 0 = W
        \<and> 0 \<le> \<epsilon> \<and> 2 * \<epsilon> \<le> W
      \<longrightarrow> GetSquaredDistAtoB 1 g [0] [W - \<epsilon>] = \<epsilon>\<^sup>2)
   \<and> (mPeriodicity g ! 0 \<and> mUpperCorner g ! 0 - mLowerCorner g ! 0 = W
        \<and> 0 \<le> \<epsilon> \<and> 2 * \<epsilon> < W
      \<longrightarrow> GetSquaredDistAtoB 1 g [0] [W - \<epsilon>] \<noteq> (W - \<epsilon>)\<^sup>2)"
proof (intro conjI impI)
  show "GetSquaredDistAtoB SPACE_DIM g p1 p2 =
     (\<Sum>d = 0..<SPACE_DIM.
        (let delta = \<bar>p2 ! d - p1 ! d\<bar> in
         if mPeriodicity g ! d
         then min delta ((mUpperCorner g ! d - mLowerCorner g ! d) - delta)
         else delta)\<^sup>2)"
    unfolding GetSquaredDistAtoB_def
    by (simp add: foldl_add_sum delta_this_dim_def Let_def power2_eq_square cong: if_cong)
next
  assume h: "mPeriodicity g ! 0 \<and> mUpperCorner g ! 0 - mLowerCorner g ! 0 = W
        \<and> 0 \<le> \<epsilon> \<and> 2 * \<epsilon> \<le> W"
  then have "delta_this_dim g [0] [W - \<epsilon>] 0 = \<epsilon>"
    by (simp add: delta_this_dim_def Let_def min_def)
  then show "GetSquaredDistAtoB 1 g [0] [W - \<epsilon>] = \<epsilon>\<^sup>2"
    by (simp add: GetSquaredDistAtoB_def power2_eq_square)
next
  assume h: "mPeriodicity g ! 0 \<and> mUpperCorner g ! 0 - mLowerCorner g ! 0 = W
        \<and> 0 \<le> \<epsilon> \<and> 2 * \<epsilon> < W"
  then have d: "delta_this_dim g [0] [W - \<epsilon>] 0 = \<epsilon>"
    by (simp add: delta_this_dim_def Let_def min_def)
  from h have "\<bar>\<epsilon>\<bar> \<noteq> \<bar>W - \<epsilon>\<bar>" by simp
  then have "\<epsilon>\<^sup>2 \<noteq> (W - \<epsilon>)\<^sup>2"
    by (metis abs_eq_iff power2_eq_iff)
  with d show "GetSquaredDistAtoB 1 g [0] [W - \<epsilon>] \<noteq> (W - \<epsilon>)\<^sup>2"
    by (simp add: GetSquaredDistAtoB_def power2_eq_square)
qed

theorem GetSquaredDistAtoB_periodic_witness:
  "GetSquaredDistAtoB 1 ex_periodic [0] [1 - 1 / 4] = (1 / 4)\<^sup>2
   \<and> GetSquaredDistAtoB 1 ex_periodic [0] [1 - 1 / 4] \<noteq> (1 - 1 / 4)\<^sup>2"
  using GetSquaredDistAtoB_periodic [of 1 ex_periodic "[0]" "[1 - 1 / 4]" 1 "1 / 4"]
  by (simp add: ex_periodic_def)

text \<open>
  Claim C7, amended. On a file that holds a header, then as many doubles as the header's
  \<open>mNumEigenvals\<close>, then \<open>totalGridPoints * mNumEigenvals\<close> doubles, then anything,
  where \<open>totalGridPoints\<close> is the product of the header's \<open>mNumGridPts\<close> and both
  \<open>totalGridPoints\<close> and \<open>totalGridPoints * mNumEigenvals\<close> are less than \<open>2 ^ 32\<close>,
  \<open>LoadFromCache\<close> copies the header into the six parameters, computes \<open>totalGridPoints\<close>,
  gives the eigenvalues the first block, and gives the matrix \<open>totalGridPoints\<close> rows,
  \<open>mNumEigenvals\<close> columns and the second block as its data. Nothing stands between the
  blocks, and what follows them is not read.
\<close>

theorem LoadFromCache_layout:
  assumes opened: "ifstream_open fs path = Some (CacheRecord h (evals @ evecs @ rest))"
    and total: "totalGridPoints = prod_list (map unat (h_mNumGridPts h))"
    and fits_total: "totalGridPoints < 2 ^ 32"
    and fits: "totalGridPoints * unat (h_mNumEigenvals h) < 2 ^ 32"
    and n: "length evals = unat (h_mNumEigenvals h)"
    and m: "length evecs = totalGridPoints * unat (h_mNumEigenvals h)"
  shows "LoadFromCache u fs path g =
           Inr \<lparr>mLowerCorner = h_mLowerCorner h, mUpperCorner = h_mUpperCorner h,
                mNumGridPts = h_mNumGridPts h, mPeriodicity = h_mPeriodicity h,
                mNumEigenvals = h_mNumEigenvals h, mLengthScale = h_mLengthScale h,
                mEigenvals = evals,
                mEigenvecs =
                  \<lparr>mrows = totalGridPoints,
                   mcols = unat (h_mNumEigenvals h),
                   mdata = evecs\<rparr>\<rparr>
         \<and> unat (foldl (*) 1 (h_mNumGridPts h)) = totalGridPoints"
proof -
  let ?T = "foldl (*) 1 (h_mNumGridPts h)"
  let ?k = "h_mNumEigenvals h"
  have T: "unat ?T = totalGridPoints"
    using prod_list_unat_fits [of "h_mNumGridPts h"] fits_total total by simp
  have "unat (?T * ?k) = unat ?T * unat ?k"
    using fits T by (simp add: unat_word_ariths)
  then have m': "length evecs = unat (?T * ?k)"
    using m T by simp
  have "[length evecs..<unat ?T * unat ?k] = []"
    using m T by simp
  then show ?thesis
    using LoadFromCache_complete [OF opened n m', of u g] T by simp
qed

theorem LoadFromCache_layout_witness:
  "LoadFromCache ex_u ex_fs_long (GetAbsolutePath ex_fs_long ex_name1) ex_args1 = Inr ex_loaded
   \<and> unat (foldl (*) 1 (h_mNumGridPts ex_header1)) = 2"
proof -
  have opened: "ifstream_open ex_fs_long (GetAbsolutePath ex_fs_long ex_name1)
      = Some (CacheRecord ex_header1 ([2] @ [7 / 10, - 7 / 10] @ [9, 9]))"
    by (simp add: ifstream_open_def ex_fs_long_def ex_fs_def GetAbsolutePath_def)
  have total: "(2 :: nat) = prod_list (map unat (h_mNumGridPts ex_header1))"
    by (simp add: ex_header1_def)
  have fits_total: "(2 :: nat) < 2 ^ 32" by simp
  have fits: "(2 :: nat) * unat (h_mNumEigenvals ex_header1) < 2 ^ 32"
    by (simp add: ex_header1_def)
  have n: "length [2 :: double] = unat (h_mNumEigenvals ex_header1)"
    by (simp add: ex_header1_def)
  have m: "length [7 / 10, - 7 / 10 :: double] = 2 * unat (h_mNumEigenvals ex_header1)"
    by (simp add: ex_header1_def)
  show ?thesis
    using LoadFromCache_layout [OF opened total fits_total fits n m, of ex_u ex_args1]
    by (simp add: ex_header1_def ex_loaded_def)
qed

text \<open>
  The claim as stated, with no bound on the sizes, fails on a header with 65536 by 65536
  grid points and one eigenvalue: the product of the numbers of grid points is \<open>2 ^ 32\<close>,
  the code's \<open>total_gridpts\<close> is an \<open>unsigned\<close> and is 0, so the matrix gets no row and
  no double is read into it.
\<close>

theorem LoadFromCache_layout_counterexample:
  "LoadFromCache ex_u ex_fs_wrap (GetAbsolutePath ex_fs ex_name_wrap) ex_cold =
     Inr \<lparr>mLowerCorner = [0, 0], mUpperCorner = [1, 1],
          mNumGridPts = [65536, 65536], mPeriodicity = [False, False],
          mNumEigenvals = 1, mLengthScale = 1 / 2,
          mEigenvals = [5],
          mEigenvecs = \<lparr>mrows = 0, mcols = 1, mdata = []\<rparr>\<rparr>
   \<and> prod_list (map unat (h_mNumGridPts ex_header_wrap)) = 4294967296
   \<and> prod_list (map unat (h_mNumGridPts ex_header_wrap)) * unat (h_mNumEigenvals ex_header_wrap)
       = 4294967296
   \<and> mrows (mEigenvecs (projr (LoadFromCache ex_u ex_fs_wrap
         (GetAbsolutePath ex_fs ex_name_wrap) ex_cold)))
       \<noteq> prod_list (map unat (h_mNumGridPts ex_header_wrap))"
proof -
  have opened: "ifstream_open ex_fs_wrap (GetAbsolutePath ex_fs ex_name_wrap)
      = Some (CacheRecord ex_header_wrap ([5] @ [] @ [7, 7]))"
    by (simp add: ifstream_open_def ex_fs_wrap_def ex_fs_def GetAbsolutePath_def)
  have zero: "foldl (*) 1 (h_mNumGridPts ex_header_wrap) = 0"
    by (simp add: ex_header_wrap_def)
  have n: "length [5 :: double] = unat (h_mNumEigenvals ex_header_wrap)"
    by (simp add: ex_header_wrap_def)
  have m: "length ([] :: double list)
      = unat (foldl (*) 1 (h_mNumGridPts ex_header_wrap) * h_mNumEigenvals ex_header_wrap)"
    by (simp add: zero)
  have load: "LoadFromCache ex_u ex_fs_wrap (GetAbsolutePath ex_fs ex_name_wrap) ex_cold =
     Inr \<lparr>mLowerCorner = [0, 0], mUpperCorner = [1, 1],
          mNumGridPts = [65536, 65536], mPeriodicity = [False, False],
          mNumEigenvals = 1, mLengthScale = 1 / 2,
          mEigenvals = [5],
          mEigenvecs = \<lparr>mrows = 0, mcols = 1, mdata = []\<rparr>\<rparr>"
    using LoadFromCache_complete [OF opened n m, of ex_u ex_cold]
    by (simp add: zero) (simp add: ex_header_wrap_def)
  have prod: "prod_list (map unat (h_mNumGridPts ex_header_wrap)) = 4294967296"
    by (simp add: ex_header_wrap_def)
  have k: "unat (h_mNumEigenvals ex_header_wrap) = 1"
    by (simp add: ex_header_wrap_def)
  show ?thesis unfolding load prod k by simp
qed

text \<open>
  Claim C8. The same parameters give the same file name, and two sets of parameters
  whose fields are all written the same way with three decimal digits give the same file
  name.
\<close>

theorem filename_collision:
  "(g = g' \<longrightarrow> GetFilenameFromParams SPACE_DIM g = GetFilenameFromParams SPACE_DIM g')
   \<and> (same_fixed3_fields SPACE_DIM g g'
        \<longrightarrow> GetFilenameFromParams SPACE_DIM g = GetFilenameFromParams SPACE_DIM g')"
  using same_fields_same_name [of SPACE_DIM g g'] by simp

theorem filename_collision_witness:
  "GetFilenameFromParams 1 ex_args1 = GetFilenameFromParams 1 ex_loaded
   \<and> mLowerCorner ex_args1 \<noteq> mLowerCorner ex_loaded
   \<and> GetFilenameFromParams 1 ex_loaded = GetFilenameFromParams 1 ex_loaded"
proof -
  have "same_fixed3_fields 1 ex_args1 ex_loaded"
    by (simp add: same_fixed3_fields_def ex_args1_def ex_loaded_def put_double_small
        put_double_0)
  then show ?thesis
    using filename_collision [of ex_args1 ex_loaded 1] filename_collision [of ex_loaded ex_loaded 1]
    by (simp add: ex_args1_def ex_loaded_def)
qed

text \<open>
  Claim C9. \<open>LoadFromCache\<close> fails exactly when the file cannot be opened for reading,
  and \<open>SaveToCache\<close>, in a dimension that has a file name, fails exactly when the file
  cannot be opened for writing. The failure is the exception of \<open>EXCEPT_IF_NOT\<close>; it
  is not retried or replaced by a result, and the constructor passes it on to its
  caller when the file exists and cannot be opened.
\<close>

theorem open_failure_is_Exception:
  "(isl (LoadFromCache u fs path g) \<longleftrightarrow> ifstream_open fs path = None)
   \<and> (ifstream_open fs path = None \<longrightarrow> LoadFromCache u fs path g = Inl Exception)
   \<and> (GetFilenameFromParams SPACE_DIM g = Inr name \<longrightarrow>
        (isl (SaveToCache SPACE_DIM fs g) \<longleftrightarrow> \<not> can_write fs (GetAbsolutePath fs name))
        \<and> (\<not> can_write fs (GetAbsolutePath fs name)
             \<longrightarrow> SaveToCache SPACE_DIM fs g = Inl Exception))
   \<and> (GetFilenameFromParams SPACE_DIM
          \<lparr>mLowerCorner = lowerCorner, mUpperCorner = upperCorner,
           mNumGridPts = numGridPts, mPeriodicity = periodicity,
           mNumEigenvals = numEigenvals, mLengthScale = lengthScale,
           mEigenvals = [], mEigenvecs = empty_matrix\<rparr> = Inr name
        \<and> Exists fs name \<and> ifstream_open fs (GetAbsolutePath fs name) = None
        \<longrightarrow> UniformGridRandomFieldGenerator SPACE_DIM u fs lowerCorner upperCorner numGridPts
              periodicity numEigenvals lengthScale = Inl Exception)"
proof (intro conjI impI)
  show "isl (LoadFromCache u fs path g) \<longleftrightarrow> ifstream_open fs path = None"
    using LoadFromCache_not_open [of fs path u g] LoadFromCache_open [of fs path _ u g]
    by (cases "ifstream_open fs path") auto
next
  assume "ifstream_open fs path = None"
  then show "LoadFromCache u fs path g = Inl Exception"
    by (rule LoadFromCache_not_open)
next
  assume "GetFilenameFromParams SPACE_DIM g = Inr name"
  then show "isl (SaveToCache SPACE_DIM fs g) \<longleftrightarrow> \<not> can_write fs (GetAbsolutePath fs name)"
    by (simp add: SaveToCache_def Let_def)
next
  assume "GetFilenameFromParams SPACE_DIM g = Inr name"
    and "\<not> can_write fs (GetAbsolutePath fs name)"
  then show "SaveToCache SPACE_DIM fs g = Inl Exception"
    by (simp add: SaveToCache_def Let_def)
next
  assume "GetFilenameFromParams SPACE_DIM
          \<lparr>mLowerCorner = lowerCorner, mUpperCorner = upperCorner,
           mNumGridPts = numGridPts, mPeriodicity = periodicity,
           mNumEigenvals = numEigenvals, mLengthScale = lengthScale,
           mEigenvals = [], mEigenvecs = empty_matrix\<rparr> = Inr name
        \<and> Exists fs name \<and> ifstream_open fs (GetAbsolutePath fs name) = None"
  then show "UniformGridRandomFieldGenerator SPACE_DIM u fs lowerCorner upperCorner numGridPts
              periodicity numEigenvals lengthScale = Inl Exception"
    by (simp add: UniformGridRandomFieldGenerator_def LoadFromCache_not_open)
qed

theorem open_failure_is_Exception_witness:
  "LoadFromCache ex_u ex_fs (GetAbsolutePath ex_fs ex_name) ex_cold = Inl Exception
   \<and> \<not> isl (LoadFromCache ex_u ex_fs_warm (GetAbsolutePath ex_fs_warm ex_name1) ex_args1)
   \<and> SaveToCache 1 ex_fs_locked ex_loaded = Inl Exception
   \<and> \<not> isl (SaveToCache 1 ex_fs ex_loaded)
   \<and> UniformGridRandomFieldGenerator 1 ex_u ex_fs_locked [1 / 2500] [1] [2] [False] 1 (1 / 2)
       = Inl Exception"
proof -
  have a: "ifstream_open ex_fs (GetAbsolutePath ex_fs ex_name) = None"
    by (simp add: ifstream_open_def ex_fs_def)
  have b: "ifstream_open ex_fs_warm (GetAbsolutePath ex_fs_warm ex_name1) \<noteq> None"
    by (simp add: ifstream_open_def ex_fs_warm_def ex_fs_def GetAbsolutePath_def)
  have c: "\<not> can_write ex_fs_locked (GetAbsolutePath ex_fs_locked ex_name1)"
    by (simp add: ex_fs_locked_def)
  have d: "can_write ex_fs (GetAbsolutePath ex_fs ex_name1)"
    by (simp add: ex_fs_def)
  have e: "Exists ex_fs_locked ex_name1"
    by (simp add: Exists_def ex_fs_locked_def ex_fs_warm_def ex_fs_def GetAbsolutePath_def)
  have f: "ifstream_open ex_fs_locked (GetAbsolutePath ex_fs_locked ex_name1) = None"
    by (simp add: ifstream_open_def ex_fs_locked_def split: option.splits)
  have n: "GetFilenameFromParams 1
          \<lparr>mLowerCorner = [1 / 2500], mUpperCorner = [1],
           mNumGridPts = [2], mPeriodicity = [False],
           mNumEigenvals = 1, mLengthScale = 1 / 2,
           mEigenvals = [], mEigenvecs = empty_matrix\<rparr> = Inr ex_name1"
    using ex_args1_name by (simp add: ex_args1_def)
  show ?thesis
    using open_failure_is_Exception [of ex_u ex_fs "GetAbsolutePath ex_fs ex_name" ex_cold]
      open_failure_is_Exception [of ex_u ex_fs_warm "GetAbsolutePath ex_fs_warm ex_name1" ex_args1]
      open_failure_is_Exception [where SPACE_DIM = 1 and g = ex_loaded and name = ex_name1
        and fs = ex_fs_locked]
      open_failure_is_Exception [where SPACE_DIM = 1 and g = ex_loaded and name = ex_name1
        and fs = ex_fs]
      open_failure_is_Exception [where SPACE_DIM = 1 and u = ex_u and fs = ex_fs_locked
        and lowerCorner = "[1 / 2500]" and upperCorner = "[1]" and numGridPts = "[2]"
        and periodicity = "[False]" and numEigenvals = 1 and lengthScale = "1 / 2"
        and name = ex_name1]
      a b c d e f n ex_loaded_name
    by simp
qed

text \<open>
  Claim C10. When no file exists under the key derived from the arguments, the
  constructor returns an instance whose six parameters are exactly its arguments and
  whose eigenvalue and eigenvector containers are empty, and it leaves the file system
  as it found it.
\<close>

theorem constructor_cold_frame:
  assumes g: "g = \<lparr>mLowerCorner = lowerCorner, mUpperCorner = upperCorner,
                     mNumGridPts = numGridPts, mPeriodicity = periodicity,
                     mNumEigenvals = numEigenvals, mLengthScale = lengthScale,
                     mEigenvals = [], mEigenvecs = empty_matrix\<rparr>"
    and name: "GetFilenameFromParams SPACE_DIM g = Inr name"
    and cold: "\<not> Exists fs name"
  shows "UniformGridRandomFieldGenerator SPACE_DIM u fs lowerCorner upperCorner numGridPts
           periodicity numEigenvals lengthScale = Inr (g, fs)
         \<and> mEigenvals g = [] \<and> mdata (mEigenvecs g) = [] \<and> msize (mEigenvecs g) = 0"
  using name cold unfolding g UniformGridRandomFieldGenerator_def
  by (simp add: empty_matrix_def msize_def)

theorem constructor_cold_frame_witness:
  "UniformGridRandomFieldGenerator 2 ex_u ex_fs [0, 0] [1, 1] [3, 3] [False, False] 4 (1 / 2)
     = Inr (ex_cold, ex_fs)
   \<and> mEigenvals ex_cold = [] \<and> mdata (mEigenvecs ex_cold) = [] \<and> msize (mEigenvecs ex_cold) = 0"
proof -
  have c: "\<not> Exists ex_fs ex_name" by (simp add: Exists_def ex_fs_def)
  show ?thesis
    using constructor_cold_frame [OF _ ex_cold_name c, of "[0, 0]" "[1, 1]" "[3, 3]"
        "[False, False]" 4 "1 / 2" ex_u]
    by (simp add: ex_cold_def)
qed

end
